theory Spec2Isabelle
  imports Main "HOL-Library.Sublist"
begin

section \<open>JavaScript values and helpers\<close>

text \<open>
  Strings are \<^typ>\<open>string\<close>. \<open>String.prototype.includes\<close> is a case-sensitive
  substring test; \<open>str_includes s p\<close> reads \<^verbatim>\<open>s.includes(p)\<close>.
\<close>

fun str_includes :: "string \<Rightarrow> string \<Rightarrow> bool" where
  "str_includes [] p = (p = [])"
| "str_includes (c # cs) p = (prefix p (c # cs) \<or> str_includes cs p)"

text \<open>
  \<^verbatim>\<open>a || b\<close> on an optional string: \<open>undefined\<close> and the empty string are falsy.
\<close>

definition truthy :: "string option \<Rightarrow> bool" where
  "truthy a = (case a of None \<Rightarrow> False | Some s \<Rightarrow> s \<noteq> [])"

definition or_else :: "string option \<Rightarrow> string \<Rightarrow> string" where
  "or_else a b = (case a of None \<Rightarrow> b | Some s \<Rightarrow> if s = [] then b else s)"

text \<open>
  \<^verbatim>\<open>toLowerCase\<close> on the ASCII letters; every other character is left as it is
  (the model's characters are bytes).
\<close>

definition toLowerCase_char :: "char \<Rightarrow> char" where
  "toLowerCase_char c =
     (case map_of (zip ''ABCDEFGHIJKLMNOPQRSTUVWXYZ'' ''abcdefghijklmnopqrstuvwxyz'') c of
        Some l \<Rightarrow> l
      | None \<Rightarrow> c)"

definition toLowerCase :: "string \<Rightarrow> string" where
  "toLowerCase s = map toLowerCase_char s"

text \<open>\<^verbatim>\<open>Array.prototype.join\<close> on strings.\<close>

fun join :: "string list \<Rightarrow> string \<Rightarrow> string" where
  "join [] sep = []"
| "join [x] sep = x"
| "join (x # y # ys) sep = x @ sep @ join (y # ys) sep"

section \<open>Error classifier (utils/error-handler.util.ts)\<close>

datatype ErrorCode =
    NOT_FOUND
  | INVALID_CURSOR
  | ACCESS_DENIED
  | VALIDATION_ERROR
  | UNEXPECTED_ERROR
  | NETWORK_ERROR
  | RATE_LIMIT_ERROR

text \<open>
  The value handed to the classifier has type \<^verbatim>\<open>unknown\<close>. What the classifier
  reads of it is: whether it is an \<^verbatim>\<open>Error\<close>, its message, and the value of its
  \<^verbatim>\<open>statusCode\<close> property (\<open>None\<close> when the property is absent or undefined).
  A value that is no \<^verbatim>\<open>Error\<close> is read through \<^verbatim>\<open>String(error)\<close>.
\<close>

datatype RawError =
    JsError string "nat option"
  | NonError string

fun errorMessage_of :: "RawError \<Rightarrow> string" where
  "errorMessage_of (JsError m s) = m"
| "errorMessage_of (NonError m) = m"

fun statusCode_of :: "RawError \<Rightarrow> nat option" where
  "statusCode_of (JsError m s) = s"
| "statusCode_of (NonError m) = None"

text \<open>\<^verbatim>\<open>n || d\<close> on an optional number: undefined and 0 are falsy.\<close>

definition number_or :: "nat option \<Rightarrow> nat \<Rightarrow> nat" where
  "number_or s d = (case s of None \<Rightarrow> d | Some n \<Rightarrow> if n = 0 then d else n)"

definition detectErrorType :: "RawError \<Rightarrow> ErrorCode \<times> nat" where
  "detectErrorType error =
     (let errorMessage = errorMessage_of error;
          statusCode = statusCode_of error
      in
      if str_includes errorMessage ''network error'' \<or>
         str_includes errorMessage ''fetch failed'' \<or>
         str_includes errorMessage ''ECONNREFUSED'' \<or>
         str_includes errorMessage ''ENOTFOUND'' \<or>
         str_includes errorMessage ''Failed to fetch'' \<or>
         str_includes errorMessage ''Network request failed''
      then (NETWORK_ERROR, 500)
      else if str_includes errorMessage ''rate limit'' \<or>
         str_includes errorMessage ''too many requests'' \<or>
         statusCode = Some 429
      then (RATE_LIMIT_ERROR, 429)
      else if str_includes errorMessage ''not found'' \<or>
         str_includes errorMessage ''does not exist'' \<or>
         statusCode = Some 404
      then (NOT_FOUND, 404)
      else if str_includes errorMessage ''access'' \<or>
         str_includes errorMessage ''permission'' \<or>
         str_includes errorMessage ''authorize'' \<or>
         str_includes errorMessage ''authentication'' \<or>
         statusCode = Some 401 \<or>
         statusCode = Some 403
      then (ACCESS_DENIED, number_or statusCode 403)
      else if (str_includes errorMessage ''cursor'' \<or>
          str_includes errorMessage ''startAt'' \<or>
          str_includes errorMessage ''page'') \<and>
         (str_includes errorMessage ''invalid'' \<or> str_includes errorMessage ''not valid'')
      then (INVALID_CURSOR, 400)
      else if str_includes errorMessage ''validation'' \<or>
         str_includes errorMessage ''invalid'' \<or>
         str_includes errorMessage ''required'' \<or>
         statusCode = Some 400 \<or>
         statusCode = Some 422
      then (VALIDATION_ERROR, number_or statusCode 400)
      else (UNEXPECTED_ERROR, number_or statusCode 500))"

text \<open>The phrase groups of the classifier, named for the statements below.\<close>

definition network_phrase :: "string \<Rightarrow> bool" where
  "network_phrase m =
     (str_includes m ''network error'' \<or> str_includes m ''fetch failed'' \<or>
      str_includes m ''ECONNREFUSED'' \<or> str_includes m ''ENOTFOUND'' \<or>
      str_includes m ''Failed to fetch'' \<or> str_includes m ''Network request failed'')"

definition rate_limit_phrase :: "string \<Rightarrow> bool" where
  "rate_limit_phrase m = (str_includes m ''rate limit'' \<or> str_includes m ''too many requests'')"

definition not_found_phrase :: "string \<Rightarrow> bool" where
  "not_found_phrase m = (str_includes m ''not found'' \<or> str_includes m ''does not exist'')"

definition access_phrase :: "string \<Rightarrow> bool" where
  "access_phrase m =
     (str_includes m ''access'' \<or> str_includes m ''permission'' \<or>
      str_includes m ''authorize'' \<or> str_includes m ''authentication'')"

definition cursor_phrase :: "string \<Rightarrow> bool" where
  "cursor_phrase m =
     ((str_includes m ''cursor'' \<or> str_includes m ''startAt'' \<or> str_includes m ''page'') \<and>
      (str_includes m ''invalid'' \<or> str_includes m ''not valid''))"

definition validation_phrase :: "string \<Rightarrow> bool" where
  "validation_phrase m =
     (str_includes m ''validation'' \<or> str_includes m ''invalid'' \<or> str_includes m ''required'')"

definition matches_pattern :: "string \<Rightarrow> bool" where
  "matches_pattern m =
     (network_phrase m \<or> rate_limit_phrase m \<or> not_found_phrase m \<or>
      access_phrase m \<or> cursor_phrase m \<or> validation_phrase m)"

text \<open>
  The error taxonomy of the specification, and the kind it gives to an HTTP status.
  \<open>spec_kind_of_status\<close> follows the specification's words, not the code; it is what
  the classifier is compared with. \<open>kind_of_code\<close> reads the classifier's codes in that
  taxonomy (the code has no kind for a missing credential, a timeout or a server error;
  a cursor error is a request the server answers with 400).
\<close>

datatype ErrorKind =
    NetworkError
  | TimeoutError
  | AuthMissing
  | AuthInvalid
  | NotFound
  | ValidationError
  | RateLimited
  | ServerError
  | UnexpectedError

definition spec_kind_of_status :: "nat \<Rightarrow> ErrorKind" where
  "spec_kind_of_status s =
     (if s = 401 \<or> s = 403 then AuthInvalid
      else if s = 404 then NotFound
      else if s = 400 \<or> s = 422 then ValidationError
      else if s = 429 then RateLimited
      else if s = 502 \<or> s = 503 \<or> s = 504 then ServerError
      else UnexpectedError)"

fun kind_of_code :: "ErrorCode \<Rightarrow> ErrorKind" where
  "kind_of_code NOT_FOUND = NotFound"
| "kind_of_code INVALID_CURSOR = ValidationError"
| "kind_of_code ACCESS_DENIED = AuthInvalid"
| "kind_of_code VALIDATION_ERROR = ValidationError"
| "kind_of_code UNEXPECTED_ERROR = UnexpectedError"
| "kind_of_code NETWORK_ERROR = NetworkError"
| "kind_of_code RATE_LIMIT_ERROR = RateLimited"

text \<open>
  The kind the classifier itself ties to a status code: the status disjunct of each
  branch of \<open>detectErrorType\<close>, in the order of the branches.
\<close>

definition code_of_status :: "nat \<Rightarrow> ErrorCode" where
  "code_of_status s =
     (if s = 429 then RATE_LIMIT_ERROR
      else if s = 404 then NOT_FOUND
      else if s = 401 \<or> s = 403 then ACCESS_DENIED
      else if s = 400 \<or> s = 422 then VALIDATION_ERROR
      else UNEXPECTED_ERROR)"

text \<open>
  The phrases of the branches that \<open>detectErrorType\<close> tests before the branch of a
  status code: a message with one of them is classified by that earlier branch.
\<close>

definition earlier_phrase :: "nat \<Rightarrow> string \<Rightarrow> bool" where
  "earlier_phrase s m =
     (if s = 429 then network_phrase m
      else if s = 404 then network_phrase m \<or> rate_limit_phrase m
      else if s = 401 \<or> s = 403 then
        network_phrase m \<or> rate_limit_phrase m \<or> not_found_phrase m
      else
        network_phrase m \<or> rate_limit_phrase m \<or> not_found_phrase m \<or>
        access_phrase m \<or> cursor_phrase m)"

subsection \<open>User-facing messages\<close>

text \<open>
  \<^verbatim>\<open>ErrorContext\<close>: every field is optional. An entity id is a string or a record of
  strings, kept as its entries in enumeration order. \<^verbatim>\<open>additionalInfo\<close> is never read
  by the functions below and is left out.
\<close>

datatype EntityId = IdString string | IdRecord "(string \<times> string) list"

record ErrorContext =
  source :: "string option"
  entityType :: "string option"
  entityId :: "EntityId option"
  operation :: "string option"

definition entityIdStr_of :: "EntityId option \<Rightarrow> string" where
  "entityIdStr_of eid =
     (case eid of
        None \<Rightarrow> []
      | Some (IdString s) \<Rightarrow> s
      | Some (IdRecord kvs) \<Rightarrow> join (map snd kvs) ''/'')"

definition entity_of :: "string option \<Rightarrow> string \<Rightarrow> string" where
  "entity_of etype entityIdStr =
     (if truthy etype
      then the etype @ (if entityIdStr \<noteq> [] then '' '' @ entityIdStr else [])
      else ''Resource'')"

text \<open>The message chosen by the \<^verbatim>\<open>switch\<close>, before any detail is appended.\<close>

definition switch_message :: "ErrorCode \<Rightarrow> ErrorContext \<Rightarrow> string option \<Rightarrow> string" where
  "switch_message code context originalMessage =
     (let entityIdStr = entityIdStr_of (entityId context);
          entity = entity_of (entityType context) entityIdStr
      in case code of
        NOT_FOUND \<Rightarrow>
          entity @ '' not found'' @ (if entityIdStr \<noteq> [] then '': '' @ entityIdStr else []) @
          ''. Verify the ID is correct and that you have access to this '' @
          or_else (map_option toLowerCase (entityType context)) ''resource'' @ ''.''
      | ACCESS_DENIED \<Rightarrow>
          ''Access denied for '' @ toLowerCase entity @
          (if entityIdStr \<noteq> [] then '' '' @ entityIdStr else []) @
          ''. Verify your credentials and permissions.''
      | INVALID_CURSOR \<Rightarrow>
          ''Invalid pagination cursor. Use the exact cursor string returned from previous results.''
      | VALIDATION_ERROR \<Rightarrow>
          or_else originalMessage
            (''Invalid data provided for '' @ or_else (operation context) ''operation'' @ '' '' @
             toLowerCase entity @ ''.'')
      | NETWORK_ERROR \<Rightarrow>
          ''Network error while '' @ or_else (operation context) ''connecting to'' @
          '' the service. Please check your internet connection and try again.''
      | RATE_LIMIT_ERROR \<Rightarrow>
          ''Rate limit exceeded. Please wait a moment and try again, or reduce the frequency of requests.''
      | UNEXPECTED_ERROR \<Rightarrow>
          ''An unexpected error occurred while '' @ or_else (operation context) ''processing'' @
          '' '' @ toLowerCase entity @ ''.'')"

definition createUserFriendlyErrorMessage ::
  "ErrorCode \<Rightarrow> ErrorContext \<Rightarrow> string option \<Rightarrow> string" where
  "createUserFriendlyErrorMessage code context originalMessage =
     (let message = switch_message code context originalMessage
      in if truthy originalMessage \<and> code \<noteq> NOT_FOUND \<and> code \<noteq> ACCESS_DENIED
         then message @ '' Error details: '' @ the originalMessage
         else message)"


section \<open>Configuration loader (utils/config.util.ts)\<close>

text \<open>
  JSON values as \<^verbatim>\<open>JSON.parse\<close> returns them. An object is kept as its entries in
  enumeration order, with distinct keys; numbers are the integers.
\<close>

datatype json =
    JNull
  | JBool bool
  | JNum int
  | JStr string
  | JArr "json list"
  | JObj "(string \<times> json) list"

type_synonym jsval = "json option"

text \<open>Decimal numerals, as \<^verbatim>\<open>String(n)\<close> prints an integer.\<close>

definition digit_char :: "nat \<Rightarrow> char" where
  "digit_char d = ''0123456789'' ! d"

function string_of_nat :: "nat \<Rightarrow> string" where
  "string_of_nat n =
     (if n < 10 then [digit_char n] else string_of_nat (n div 10) @ [digit_char (n mod 10)])"
  by pat_completeness auto
termination
  by (relation "measure (\<lambda>n. n)") auto

definition string_of_int :: "int \<Rightarrow> string" where
  "string_of_int i = (if i < 0 then ''-'' @ string_of_nat (nat (- i)) else string_of_nat (nat i))"

text \<open>\<^verbatim>\<open>String(value)\<close> and truthiness of a JSON value.\<close>

fun js_String :: "json \<Rightarrow> string" where
  "js_String JNull = ''null''"
| "js_String (JBool b) = (if b then ''true'' else ''false'')"
| "js_String (JNum i) = string_of_int i"
| "js_String (JStr s) = s"
| "js_String (JArr xs) = join (map (\<lambda>x. if x = JNull then [] else js_String x) xs) '',''"
| "js_String (JObj kvs) = ''[object Object]''"

fun json_truthy :: "json \<Rightarrow> bool" where
  "json_truthy JNull = False"
| "json_truthy (JBool b) = b"
| "json_truthy (JNum i) = (i \<noteq> 0)"
| "json_truthy (JStr s) = (s \<noteq> [])"
| "json_truthy (JArr xs) = True"
| "json_truthy (JObj kvs) = True"

text \<open>
  Reading a property that the code names (\<^verbatim>\<open>v[key]\<close>, \<^verbatim>\<open>v.path\<close>): an object
  gives its entry or \<open>undefined\<close>; reading from \<^verbatim>\<open>null\<close> throws (the outer
  \<open>None\<close>); any other value has none of the properties read here.
\<close>

fun get_prop :: "json \<Rightarrow> string \<Rightarrow> jsval option" where
  "get_prop JNull k = None"
| "get_prop (JObj kvs) k = Some (map_of kvs k)"
| "get_prop v k = Some None"

text \<open>\<^verbatim>\<open>Object.entries\<close> of a truthy JSON value.\<close>

fun js_entries :: "json \<Rightarrow> (string \<times> json) list" where
  "js_entries (JObj kvs) = kvs"
| "js_entries (JArr xs) = zip (map string_of_nat [0 ..< length xs]) xs"
| "js_entries (JStr s) = zip (map string_of_nat [0 ..< length s]) (map (\<lambda>c. JStr [c]) s)"
| "js_entries v = []"

text \<open>
  The process: its environment (\<^verbatim>\<open>process.env\<close>), the loader object's two fields, and
  a log of the accesses to the two configuration files, in the order they are made.
\<close>

type_synonym env = "string \<rightharpoonup> string"

datatype FsOp = ExistsSync | ReadFileSync | DotenvConfig

record Process =
  process_env :: env
  packageName :: string
  configLoaded :: bool
  fs_log :: "FsOp list"

text \<open>
  The two files as \<open>load\<close> meets them. \<open>dotenv_file\<close> is what \<^verbatim>\<open>dotenv.config()\<close>
  parses from the \<^verbatim>\<open>.env\<close> file of the working directory (\<open>None\<close>: it reports an
  error), entries with distinct keys. \<open>global_config\<close> is the file
  \<^verbatim>\<open>$HOME/.mcp/configs.json\<close>.
\<close>

datatype GlobalFile = NoFile | Unparsable | ConfigJson json

record Files =
  dotenv_file :: "(string \<times> string) list option"
  global_config :: GlobalFile

text \<open>
  Both writers set a key only when the environment has no value for it: the loop of
  \<open>loadFromGlobalConfig\<close> tests \<^verbatim>\<open>process.env[key] === undefined\<close>, and
  \<^verbatim>\<open>dotenv.config\<close>, called without \<^verbatim>\<open>override\<close>, leaves a key that is already
  set as it is.
\<close>

fun set_if_undefined :: "(string \<times> string) list \<Rightarrow> env \<Rightarrow> env" where
  "set_if_undefined [] e = e"
| "set_if_undefined ((k, v) # kvs) e =
     set_if_undefined kvs (if e k = None then e(k \<mapsto> v) else e)"

definition loadFromEnvFile :: "Files \<Rightarrow> Process \<Rightarrow> Process" where
  "loadFromEnvFile fs p =
     (let p' = p\<lparr>fs_log := fs_log p @ [DotenvConfig]\<rparr>
      in case dotenv_file fs of
           None \<Rightarrow> p'
         | Some parsed \<Rightarrow> p'\<lparr>process_env := set_if_undefined parsed (process_env p')\<rparr>)"

text \<open>\<^verbatim>\<open>s.split('/')\<close>.\<close>

fun split_slash :: "string \<Rightarrow> string list" where
  "split_slash [] = [[]]"
| "split_slash (c # cs) =
     (if c = CHR ''/'' then [] # split_slash cs
      else (case split_slash cs of [] \<Rightarrow> [[c]] | w # ws \<Rightarrow> (c # w) # ws))"

definition potentialKeys :: "string \<Rightarrow> string list" where
  "potentialKeys fullPackageName =
     (let unscopedPackageName =
            (case split_slash fullPackageName of
               a # b # rest \<Rightarrow> if b = [] then fullPackageName else b
             | _ \<Rightarrow> fullPackageName)
      in [''latitude'', fullPackageName, unscopedPackageName])"

text \<open>
  The search loop: the first key whose value is an object with a truthy
  \<^verbatim>\<open>environments\<close> (an array passes the \<^verbatim>\<open>typeof\<close> test but has no such
  property); the result is that \<^verbatim>\<open>environments\<close> value.
\<close>

fun findConfigSection :: "json \<Rightarrow> string list \<Rightarrow> json option" where
  "findConfigSection config [] = None"
| "findConfigSection config (key # keys) =
     (case get_prop config key of
        Some (Some (JObj section)) \<Rightarrow>
          (case map_of section ''environments'' of
             Some environments \<Rightarrow>
               if json_truthy environments then Some environments
               else findConfigSection config keys
           | None \<Rightarrow> findConfigSection config keys)
      | _ \<Rightarrow> findConfigSection config keys)"

definition loadFromGlobalConfig :: "Files \<Rightarrow> Process \<Rightarrow> Process" where
  "loadFromGlobalConfig fs p =
     (case global_config fs of
        NoFile \<Rightarrow> p\<lparr>fs_log := fs_log p @ [ExistsSync]\<rparr>
      | Unparsable \<Rightarrow> p\<lparr>fs_log := fs_log p @ [ExistsSync, ReadFileSync]\<rparr>
      | ConfigJson config \<Rightarrow>
          (let p' = p\<lparr>fs_log := fs_log p @ [ExistsSync, ReadFileSync]\<rparr>
           in if config = JNull then p'
              else case findConfigSection config (potentialKeys (packageName p)) of
                     None \<Rightarrow> p'
                   | Some environments \<Rightarrow>
                       p'\<lparr>process_env :=
                            set_if_undefined
                              (map (\<lambda>(key, value). (key, js_String value)) (js_entries environments))
                              (process_env p')\<rparr>))"

definition load :: "Files \<Rightarrow> Process \<Rightarrow> Process" where
  "load fs p =
     (if configLoaded p then p
      else (loadFromEnvFile fs (loadFromGlobalConfig fs p))\<lparr>configLoaded := True\<rparr>)"

text \<open>\<^verbatim>\<open>config.get(key, defaultValue)\<close>: \<^verbatim>\<open>process.env[key] || defaultValue\<close>.\<close>

definition config_get :: "env \<Rightarrow> string \<Rightarrow> string option \<Rightarrow> string option" where
  "config_get e key defaultValue = (if truthy (e key) then e key else defaultValue)"

text \<open>
  The precedence that the loader documents (\<open>1. process.env, 2. .env file, 3. global
  config file\<close>): the value a key should have after loading.
\<close>

definition documented_value ::
  "env \<Rightarrow> (string \<times> string) list \<Rightarrow> (string \<times> string) list \<Rightarrow> string \<Rightarrow> string option" where
  "documented_value e dotenv_entries global_entries key =
     (case e key of
        Some v \<Rightarrow> Some v
      | None \<Rightarrow>
          (case map_of dotenv_entries key of
             Some v \<Rightarrow> Some v
           | None \<Rightarrow> map_of global_entries key))"


section \<open>Typed errors (utils/error.util.ts)\<close>

datatype ErrorType =
    AUTH_MISSING
  | AUTH_INVALID
  | API_ERROR
  | UNEXPECTED_ERROR_TYPE

text \<open>
  A value thrown by the platform (\<^verbatim>\<open>fetch\<close>, a body read, \<^verbatim>\<open>JSON.parse\<close>, a property
  read): an \<^verbatim>\<open>Error\<close> object with its class, name and message, or any other value,
  kept as \<^verbatim>\<open>String(value)\<close>.
\<close>

datatype JsClass = ClsError | ClsTypeError | ClsSyntaxError | ClsDOMException

datatype JsThrown =
    ErrorObject JsClass string string
  | OtherValue string

text \<open>The validated error payload of the upstream API.\<close>

record LatitudeError =
  le_name :: string
  le_errorCode :: string
  le_message :: string
  le_details :: jsval

datatype Original =
    NoOriginal
  | OriginalPayload LatitudeError
  | OriginalText string
  | OriginalThrown JsThrown

record McpError =
  mcp_message :: string
  mcp_type :: ErrorType
  mcp_statusCode :: "nat option"
  mcp_originalError :: Original

definition createAuthMissingError :: "string \<Rightarrow> McpError" where
  "createAuthMissingError message =
     \<lparr>mcp_message = message, mcp_type = AUTH_MISSING, mcp_statusCode = None,
      mcp_originalError = NoOriginal\<rparr>"

definition createAuthInvalidError :: "string \<Rightarrow> McpError" where
  "createAuthInvalidError message =
     \<lparr>mcp_message = message, mcp_type = AUTH_INVALID, mcp_statusCode = Some 401,
      mcp_originalError = NoOriginal\<rparr>"

definition createApiError :: "string \<Rightarrow> nat option \<Rightarrow> Original \<Rightarrow> McpError" where
  "createApiError message statusCode originalError =
     \<lparr>mcp_message = message, mcp_type = API_ERROR, mcp_statusCode = statusCode,
      mcp_originalError = originalError\<rparr>"

definition createUnexpectedError :: "string \<Rightarrow> Original \<Rightarrow> McpError" where
  "createUnexpectedError message originalError =
     \<lparr>mcp_message = message, mcp_type = UNEXPECTED_ERROR_TYPE, mcp_statusCode = None,
      mcp_originalError = originalError\<rparr>"

section \<open>Request executors (api.ts, services/vendor.latitude.service.ts)\<close>

text \<open>
  Time is counted in milliseconds. What the platform awaits either settles some time
  after it was started or never does: \<^verbatim>\<open>fetch\<close> from the start of the call until the
  headers of the response (or a rejection), the read of a body from the moment the read
  begins.
\<close>

datatype 'a Timed = After nat 'a | Never

record Response =
  status :: nat
  content_length :: "string option"
  body :: "(JsThrown + string) Timed"

definition ok :: "Response \<Rightarrow> bool" where
  "ok response = (200 \<le> status response \<and> status response \<le> 299)"

text \<open>The init object handed to \<^verbatim>\<open>fetch\<close>, with the URL.\<close>

record OutRequest =
  req_url :: string
  req_method :: string
  req_headers :: "(string \<times> string) list"
  req_body :: "string option"
  req_signal :: bool

text \<open>
  What the executors take from outside the files read: the platform (\<^verbatim>\<open>fetch\<close>,
  \<^verbatim>\<open>JSON.parse\<close> with the message of its \<^verbatim>\<open>SyntaxError\<close>,
  \<^verbatim>\<open>JSON.stringify\<close>), the schema of the error payload and the two constants of
  \<^verbatim>\<open>utils/constants.util.ts\<close>.
\<close>

record Deps =
  fetch :: "OutRequest \<Rightarrow> (JsThrown + Response) Timed"
  JSON_parse :: "string \<Rightarrow> string + json"
  JSON_stringify :: "json \<Rightarrow> string"
  LatitudeErrorSchema_parse :: "json \<Rightarrow> LatitudeError option"
  LATITUDE_BASE_URL :: string
  LATITUDE_API_VERSION :: string

text \<open>
  \<^verbatim>\<open>RequestOptions\<close>: api.ts declares method, body and timeout; the service reads
  method, body and headers. One record serves both executors.
\<close>

record RequestOptions =
  opt_method :: "string option"
  opt_body :: jsval
  opt_headers :: "(string \<times> string) list"
  opt_timeout :: "nat option"

subsection \<open>api.ts\<close>

text \<open>
  \<^verbatim>\<open>LatitudeApiError\<close>. Its payload is whatever \<^verbatim>\<open>JSON.parse\<close> returned, so the
  copied fields are JavaScript values; the message went through the \<^verbatim>\<open>Error\<close>
  constructor and is a string.
\<close>

record LatitudeApiError =
  name :: jsval
  errorCode :: jsval
  message :: string
  statusCode :: nat
  details :: jsval

datatype Exn =
    PlatformExn JsThrown
  | LatitudeApiErrorExn LatitudeApiError
  | McpErrorExn McpError

text \<open>
  An awaited call: \<open>None\<close> when it stays pending for ever, otherwise the time at which
  it settles and what it throws or returns.
\<close>

type_synonym 'a outcome = "(nat \<times> (Exn + 'a)) option"

definition DEFAULT_BASE_URL :: string where
  "DEFAULT_BASE_URL = ''https://gateway.latitude.so''"

definition API_VERSION :: string where
  "API_VERSION = ''v3''"

definition API_TIMEOUT_MS :: nat where
  "API_TIMEOUT_MS = 60000"

record LatitudeConfig =
  apiKey :: string
  projectId :: string
  baseUrl :: string

definition cross_mark :: string where
  "cross_mark = [CHR 0xE2, CHR 0x9D, CHR 0x8C]"

definition api_key_required :: string where
  "api_key_required =
     cross_mark @ '' **LATITUDE_API_KEY is required**'' @ [CHR 0x0A, CHR 0x0A] @
     ''Set it in your environment:'' @ [CHR 0x0A] @ ''```'' @ [CHR 0x0A] @
     ''export LATITUDE_API_KEY=your-api-key'' @ [CHR 0x0A] @ ''```''"

definition project_id_required :: string where
  "project_id_required =
     cross_mark @ '' **LATITUDE_PROJECT_ID is required**'' @ [CHR 0x0A, CHR 0x0A] @
     ''Set it in your environment:'' @ [CHR 0x0A] @ ''```'' @ [CHR 0x0A] @
     ''export LATITUDE_PROJECT_ID=your-project-id'' @ [CHR 0x0A] @ ''```''"

definition getConfig :: "env \<Rightarrow> Exn + LatitudeConfig" where
  "getConfig e =
     (let k = config_get e ''LATITUDE_API_KEY'' None;
          p = config_get e ''LATITUDE_PROJECT_ID'' None;
          b = or_else (config_get e ''LATITUDE_BASE_URL'' None) DEFAULT_BASE_URL
      in if \<not> truthy k then Inl (PlatformExn (ErrorObject ClsError ''Error'' api_key_required))
         else if \<not> truthy p then
           Inl (PlatformExn (ErrorObject ClsError ''Error'' project_id_required))
         else Inr \<lparr>apiKey = the k, projectId = the p, baseUrl = b\<rparr>)"

text \<open>
  The constructor of \<^verbatim>\<open>LatitudeApiError\<close> reads four properties of the payload;
  on \<^verbatim>\<open>null\<close> the first read throws a \<^verbatim>\<open>TypeError\<close> (its text is the engine's).
\<close>

definition null_read_message :: string where
  "null_read_message = ''Cannot read properties of null''"

definition new_LatitudeApiError :: "json \<Rightarrow> nat \<Rightarrow> Exn" where
  "new_LatitudeApiError error st =
     (case get_prop error ''message'' of
        None \<Rightarrow> PlatformExn (ErrorObject ClsTypeError ''TypeError'' null_read_message)
      | Some msg \<Rightarrow>
          LatitudeApiErrorExn
            \<lparr>name = the (get_prop error ''name''),
             errorCode = the (get_prop error ''errorCode''),
             message = (case msg of None \<Rightarrow> [] | Some v \<Rightarrow> js_String v),
             statusCode = st,
             details = the (get_prop error ''details'')\<rparr>)"

text \<open>\<^verbatim>\<open>ms / 1000\<close> as the template literal prints it, for a whole number of ms.\<close>

definition seconds_str :: "nat \<Rightarrow> string" where
  "seconds_str ms =
     (let r = ms mod 1000;
          ds = [r div 100, (r div 10) mod 10, r mod 10];
          frac = rev (dropWhile (\<lambda>d. d = 0) (rev ds))
      in string_of_nat (ms div 1000) @
         (if frac = [] then [] else ''.'' @ map digit_char frac))"

definition effective_timeout :: "RequestOptions \<Rightarrow> nat" where
  "effective_timeout options = number_or (opt_timeout options) API_TIMEOUT_MS"

definition abort_error :: JsThrown where
  "abort_error = ErrorObject ClsDOMException ''AbortError'' ''This operation was aborted''"

text \<open>
  The body of the \<^verbatim>\<open>try\<close>. The timer started before it aborts a \<^verbatim>\<open>fetch\<close> that has
  not settled after \<open>ms\<close>; \<^verbatim>\<open>clearTimeout\<close> runs as soon as \<^verbatim>\<open>fetch\<close> has settled,
  before any read of the body.
\<close>

definition request_try :: "Deps \<Rightarrow> nat \<Rightarrow> OutRequest \<Rightarrow> json outcome" where
  "request_try d ms init =
     (case fetch d init of
        Never \<Rightarrow> Some (ms, Inl (PlatformExn abort_error))
      | After t settled \<Rightarrow>
          if ms \<le> t then Some (ms, Inl (PlatformExn abort_error))
          else
            (case settled of
               Inl thrown \<Rightarrow> Some (t, Inl (PlatformExn thrown))
             | Inr response \<Rightarrow>
                 if \<not> ok response then
                   (case body response of
                      Never \<Rightarrow> None
                    | After dt (Inl thrown) \<Rightarrow> Some (t + dt, Inl (PlatformExn thrown))
                    | After dt (Inr errorText) \<Rightarrow>
                        (let errorData =
                               (case JSON_parse d errorText of
                                  Inr parsed \<Rightarrow> parsed
                                | Inl syntax_error \<Rightarrow>
                                    JObj [(''name'', JStr ''HTTPError''),
                                          (''errorCode'',
                                             JStr (''HTTP_'' @ string_of_nat (status response))),
                                          (''message'',
                                             JStr (if errorText \<noteq> [] then errorText
                                                   else ''HTTP '' @ string_of_nat (status response)))])
                         in Some (t + dt, Inl (new_LatitudeApiError errorData (status response)))))
                 else if content_length response = Some ''0'' \<or> status response = 204 then
                   Some (t, Inr (JObj []))
                 else
                   (case body response of
                      Never \<Rightarrow> None
                    | After dt (Inl thrown) \<Rightarrow> Some (t + dt, Inl (PlatformExn thrown))
                    | After dt (Inr text) \<Rightarrow>
                        (case JSON_parse d text of
                           Inl syntax_error \<Rightarrow>
                             Some (t + dt,
                               Inl (PlatformExn
                                 (ErrorObject ClsSyntaxError ''SyntaxError'' syntax_error)))
                         | Inr parsed \<Rightarrow> Some (t + dt, Inr parsed)))))"

text \<open>The \<^verbatim>\<open>catch\<close> handler: what it throws for each caught value.\<close>

definition request_catch :: "RequestOptions \<Rightarrow> Exn \<Rightarrow> Exn" where
  "request_catch options error =
     (case error of
        LatitudeApiErrorExn e \<Rightarrow> LatitudeApiErrorExn e
      | PlatformExn (ErrorObject c n m) \<Rightarrow>
          if n = ''AbortError'' then
            LatitudeApiErrorExn
              \<lparr>name = Some (JStr ''TimeoutError''),
               errorCode = Some (JStr ''TIMEOUT''),
               message = ''Request timed out after '' @
                         seconds_str (effective_timeout options) @ ''s'',
               statusCode = 408,
               details = None\<rparr>
          else
            LatitudeApiErrorExn
              \<lparr>name = Some (JStr ''NetworkError''),
               errorCode = Some (JStr ''NETWORK_ERROR''),
               message = m,
               statusCode = 0,
               details = None\<rparr>
      | PlatformExn (OtherValue v) \<Rightarrow>
          LatitudeApiErrorExn
            \<lparr>name = Some (JStr ''NetworkError''),
             errorCode = Some (JStr ''NETWORK_ERROR''),
             message = ''Network error'',
             statusCode = 0,
             details = None\<rparr>
      | McpErrorExn e \<Rightarrow>
          LatitudeApiErrorExn
            \<lparr>name = Some (JStr ''NetworkError''),
             errorCode = Some (JStr ''NETWORK_ERROR''),
             message = mcp_message e,
             statusCode = 0,
             details = None\<rparr>)"

text \<open>
  \<open>request\<close> returns its outcome and the requests it handed to \<^verbatim>\<open>fetch\<close>.
\<close>

definition request ::
  "Deps \<Rightarrow> env \<Rightarrow> string \<Rightarrow> RequestOptions \<Rightarrow> json outcome \<times> OutRequest list" where
  "request d e endpoint options =
     (case getConfig e of
        Inl error \<Rightarrow> (Some (0, Inl error), [])
      | Inr cfg \<Rightarrow>
          (let init =
                 \<lparr>req_url = baseUrl cfg @ ''/api/'' @ API_VERSION @ endpoint,
                  req_method = or_else (opt_method options) ''GET'',
                  req_headers =
                    [(''Content-Type'', ''application/json''),
                     (''Accept'', ''application/json''),
                     (''Authorization'', ''Bearer '' @ apiKey cfg)],
                  req_body =
                    (case opt_body options of
                       None \<Rightarrow> None
                     | Some b \<Rightarrow> if json_truthy b then Some (JSON_stringify d b) else None),
                  req_signal = True\<rparr>
           in (case request_try d (effective_timeout options) init of
                 None \<Rightarrow> None
               | Some (t, Inl error) \<Rightarrow> Some (t, Inl (request_catch options error))
               | Some (t, Inr v) \<Rightarrow> Some (t, Inr v),
               [init])))"

definition no_options :: RequestOptions where
  "no_options = \<lparr>opt_method = None, opt_body = None, opt_headers = [], opt_timeout = None\<rparr>"

definition getProjectId :: "env \<Rightarrow> Exn + string" where
  "getProjectId e = (case getConfig e of Inl error \<Rightarrow> Inl error | Inr cfg \<Rightarrow> Inr (projectId cfg))"

definition listDocuments :: "Deps \<Rightarrow> env \<Rightarrow> string \<Rightarrow> json outcome \<times> OutRequest list" where
  "listDocuments d e versionUuid =
     (case getProjectId e of
        Inl error \<Rightarrow> (Some (0, Inl error), [])
      | Inr pid \<Rightarrow>
          request d e (''/projects/'' @ pid @ ''/versions/'' @ versionUuid @ ''/documents'')
            no_options)"

text \<open>\<^verbatim>\<open>doc.path\<close> of a value that is not \<^verbatim>\<open>null\<close>.\<close>

fun path_of :: "json \<Rightarrow> jsval" where
  "path_of (JObj kvs) = map_of kvs ''path''"
| "path_of v = None"

text \<open>
  \<^verbatim>\<open>docs.map((doc) => doc.path)\<close> on the value that \<open>request\<close> returned: a value that
  is no array has no \<^verbatim>\<open>map\<close>, and reading \<^verbatim>\<open>path\<close> from \<^verbatim>\<open>null\<close> throws.
\<close>

definition not_a_function :: JsThrown where
  "not_a_function = ErrorObject ClsTypeError ''TypeError'' ''docs.map is not a function''"

fun map_path :: "json list \<Rightarrow> Exn + jsval list" where
  "map_path [] = Inr []"
| "map_path (doc # docs) =
     (case get_prop doc ''path'' of
        None \<Rightarrow> Inl (PlatformExn (ErrorObject ClsTypeError ''TypeError'' null_read_message))
      | Some v \<Rightarrow> (case map_path docs of Inl error \<Rightarrow> Inl error | Inr vs \<Rightarrow> Inr (v # vs)))"

definition docs_paths :: "json \<Rightarrow> Exn + jsval list" where
  "docs_paths docs =
     (case docs of JArr ds \<Rightarrow> map_path ds | _ \<Rightarrow> Inl (PlatformExn not_a_function))"

text \<open>\<^verbatim>\<open>try { ... } catch (error) { ... }\<close> around an awaited computation.\<close>

definition try_catch :: "'a outcome \<Rightarrow> (Exn \<Rightarrow> Exn + 'a) \<Rightarrow> 'a outcome" where
  "try_catch tried handler =
     (case tried of
        None \<Rightarrow> None
      | Some (t, Inl error) \<Rightarrow> Some (t, handler error)
      | Some (t, Inr v) \<Rightarrow> Some (t, Inr v))"

definition then_do :: "'a outcome \<Rightarrow> ('a \<Rightarrow> Exn + 'b) \<Rightarrow> 'b outcome" where
  "then_do awaited f =
     (case awaited of
        None \<Rightarrow> None
      | Some (t, Inl error) \<Rightarrow> Some (t, Inl error)
      | Some (t, Inr v) \<Rightarrow> Some (t, f v))"

definition getPromptNames :: "Deps \<Rightarrow> env \<Rightarrow> jsval list outcome \<times> OutRequest list" where
  "getPromptNames d e =
     (let (docs, sent) = listDocuments d e ''live''
      in (try_catch (then_do docs docs_paths) (\<lambda>error. Inr []), sent))"


subsection \<open>services/vendor.latitude.service.ts\<close>

definition getLatitudeCredentials :: "Deps \<Rightarrow> env \<Rightarrow> Exn + string \<times> string" where
  "getLatitudeCredentials d e =
     (let k = config_get e ''LATITUDE_API_KEY'' None;
          b = or_else (config_get e ''LATITUDE_BASE_URL'' None) (LATITUDE_BASE_URL d)
      in if \<not> truthy k then
           Inl (McpErrorExn (createAuthInvalidError
             ''LATITUDE_API_KEY is required. Set it in your environment or .env file.''))
         else Inr (the k, b))"

text \<open>\<^verbatim>\<open>errorData?.message || fallback\<close> and \<^verbatim>\<open>errorData || errorText\<close>.\<close>

definition payload_message :: "LatitudeError option \<Rightarrow> string \<Rightarrow> string" where
  "payload_message errorData fallback = or_else (map_option le_message errorData) fallback"

definition payload_or_text :: "LatitudeError option \<Rightarrow> string \<Rightarrow> Original" where
  "payload_or_text errorData errorText =
     (case errorData of Some payload \<Rightarrow> OriginalPayload payload | None \<Rightarrow> OriginalText errorText)"

definition status_error :: "Deps \<Rightarrow> nat \<Rightarrow> string \<Rightarrow> McpError" where
  "status_error d st errorText =
     (let errorData =
            (case JSON_parse d errorText of
               Inl syntax_error \<Rightarrow> None
             | Inr parsed \<Rightarrow> LatitudeErrorSchema_parse d parsed)
      in if st = 401 then
           createAuthInvalidError
             (payload_message errorData ''Authentication failed. Check your LATITUDE_API_KEY.'')
         else if st = 403 then
           createAuthInvalidError
             (payload_message errorData ''Permission denied for the requested resource.'')
         else if st = 404 then
           createApiError (payload_message errorData ''Resource not found.'') (Some st)
             (payload_or_text errorData errorText)
         else if st = 422 then
           createApiError (payload_message errorData ''Validation error.'') (Some st)
             (payload_or_text errorData errorText)
         else
           createApiError
             (payload_message errorData (''API request failed with status '' @ string_of_nat st))
             (Some st) (payload_or_text errorData errorText))"

text \<open>The body of the \<^verbatim>\<open>try\<close> of \<open>fetchLatitudeApi\<close>: no timer and no abort signal.\<close>

definition fetchLatitudeApi_try :: "Deps \<Rightarrow> OutRequest \<Rightarrow> json outcome" where
  "fetchLatitudeApi_try d init =
     (case fetch d init of
        Never \<Rightarrow> None
      | After t (Inl thrown) \<Rightarrow> Some (t, Inl (PlatformExn thrown))
      | After t (Inr response) \<Rightarrow>
          if \<not> ok response then
            (case body response of
               Never \<Rightarrow> None
             | After dt (Inl thrown) \<Rightarrow> Some (t + dt, Inl (PlatformExn thrown))
             | After dt (Inr errorText) \<Rightarrow>
                 Some (t + dt, Inl (McpErrorExn (status_error d (status response) errorText))))
          else if content_length response = Some ''0'' \<or> status response = 204 then
            Some (t, Inr (JObj []))
          else
            (case body response of
               Never \<Rightarrow> None
             | After dt (Inl thrown) \<Rightarrow> Some (t + dt, Inl (PlatformExn thrown))
             | After dt (Inr text) \<Rightarrow>
                 (case JSON_parse d text of
                    Inl syntax_error \<Rightarrow>
                      Some (t + dt,
                        Inl (PlatformExn (ErrorObject ClsSyntaxError ''SyntaxError'' syntax_error)))
                  | Inr parsed \<Rightarrow> Some (t + dt, Inr parsed))))"

definition fetchLatitudeApi_catch :: "Exn \<Rightarrow> Exn" where
  "fetchLatitudeApi_catch error =
     (case error of
        McpErrorExn e \<Rightarrow> McpErrorExn e
      | PlatformExn (ErrorObject c n m) \<Rightarrow>
          if c = ClsTypeError then
            McpErrorExn (createApiError (''Network error during API call: '' @ m) None
              (OriginalThrown (ErrorObject c n m)))
          else
            McpErrorExn (createUnexpectedError (''Unexpected error during API call: '' @ m)
              (OriginalThrown (ErrorObject c n m)))
      | PlatformExn (OtherValue v) \<Rightarrow>
          McpErrorExn (createUnexpectedError (''Unexpected error during API call: '' @ v)
            (OriginalThrown (OtherValue v)))
      | LatitudeApiErrorExn e \<Rightarrow>
          McpErrorExn (createUnexpectedError (''Unexpected error during API call: '' @ message e)
            NoOriginal))"

text \<open>
  Object spread \<^verbatim>\<open>{ ...base, ...extra }\<close>: an entry of \<open>extra\<close> replaces the value
  of a key that \<open>base\<close> has, in place, and is added at the end otherwise.
\<close>

fun put_entry :: "string \<Rightarrow> string \<Rightarrow> (string \<times> string) list \<Rightarrow> (string \<times> string) list" where
  "put_entry k v [] = [(k, v)]"
| "put_entry k v ((k', v') # kvs) =
     (if k' = k then (k, v) # kvs else (k', v') # put_entry k v kvs)"

fun spread :: "(string \<times> string) list \<Rightarrow> (string \<times> string) list \<Rightarrow> (string \<times> string) list" where
  "spread base [] = base"
| "spread base ((k, v) # extra) = spread (put_entry k v base) extra"

definition fetchLatitudeApi ::
  "Deps \<Rightarrow> env \<Rightarrow> string \<Rightarrow> RequestOptions \<Rightarrow> json outcome \<times> OutRequest list" where
  "fetchLatitudeApi d e endpoint options =
     (case getLatitudeCredentials d e of
        Inl error \<Rightarrow> (Some (0, Inl error), [])
      | Inr (key, base) \<Rightarrow>
          (let init =
                 \<lparr>req_url = base @ ''/api/'' @ LATITUDE_API_VERSION d @ endpoint,
                  req_method = or_else (opt_method options) ''GET'',
                  req_headers =
                    spread
                      [(''Content-Type'', ''application/json''),
                       (''Accept'', ''application/json''),
                       (''Authorization'', ''Bearer '' @ key)]
                      (opt_headers options),
                  req_body =
                    (case opt_body options of
                       None \<Rightarrow> None
                     | Some b \<Rightarrow> if json_truthy b then Some (JSON_stringify d b) else None),
                  req_signal = False\<rparr>
           in (try_catch (fetchLatitudeApi_try d init) (\<lambda>error. Inl (fetchLatitudeApi_catch error)),
               [init])))"

section \<open>Retry policy\<close>

text \<open>
  Modelled from the spec: the retry wrapper \<open>withRetry\<close> of the specification's
  section 4.4. The sources hold no retry code (the audit notes of the repository record
  that every error is thrown at once). An operation is the deterministic sequence of its
  outcomes, attempt \<open>n\<close> (from 1) giving \<open>op n\<close>; the result comes with the
  number of attempts made. The sleep between two attempts, with its jitter and the
  upstream retry-after directive, is not part of the model.
\<close>

record ClassifiedError =
  kind :: ErrorKind
  httpStatus :: "nat option"
  detail :: string

record RetryPolicy =
  retryableKinds :: "ErrorKind set"
  maxAttempts :: nat
  baseDelay :: nat
  maxDelay :: nat

text \<open>
  Modelled from the spec: the policy of section 4.4, missing from the sources.
\<close>

definition default_policy :: RetryPolicy where
  "default_policy =
     \<lparr>retryableKinds = {RateLimited, ServerError, TimeoutError},
      maxAttempts = 3, baseDelay = 200, maxDelay = 8000\<rparr>"

text \<open>
  Modelled from the spec: the retry loop, missing from the sources. A failure of a
  retryable kind is followed by the next attempt while attempts remain; any other failure,
  and the failure of the last attempt, is returned as it is.
\<close>

function withRetry_from ::
  "RetryPolicy \<Rightarrow> (nat \<Rightarrow> ClassifiedError + 'a) \<Rightarrow> nat \<Rightarrow> (ClassifiedError + 'a) \<times> nat" where
  "withRetry_from policy op attempt =
     (case op attempt of
        Inr result \<Rightarrow> (Inr result, attempt)
      | Inl failure \<Rightarrow>
          if kind failure \<in> retryableKinds policy \<and> attempt < maxAttempts policy
          then withRetry_from policy op (Suc attempt)
          else (Inl failure, attempt))"
  by pat_completeness auto
termination
  by (relation "measure (\<lambda>(policy, op, attempt). maxAttempts policy - attempt)") auto

definition withRetry ::
  "RetryPolicy \<Rightarrow> (nat \<Rightarrow> ClassifiedError + 'a) \<Rightarrow> (ClassifiedError + 'a) \<times> nat" where
  "withRetry policy op = withRetry_from policy op 1"


section \<open>Sample inputs\<close>

definition prompt_ctx :: ErrorContext where
  "prompt_ctx =
     \<lparr>source = None, entityType = Some ''Prompt'', entityId = Some (IdString ''onboarding''),
      operation = Some ''running''\<rparr>"

definition sample_deps ::
  "(OutRequest \<Rightarrow> (JsThrown + Response) Timed) \<Rightarrow> (string \<Rightarrow> string + json) \<Rightarrow> Deps" where
  "sample_deps f parse =
     \<lparr>fetch = f, JSON_parse = parse, JSON_stringify = (\<lambda>v. ''{}''),
      LatitudeErrorSchema_parse = (\<lambda>v. None),
      LATITUDE_BASE_URL = ''https://gateway.latitude.so'', LATITUDE_API_VERSION = ''v3''\<rparr>"

definition no_parse :: "string \<Rightarrow> string + json" where
  "no_parse text = Inl ''Unexpected end of JSON input''"

definition sample_env :: env where
  "sample_env = [''LATITUDE_API_KEY'' \<mapsto> ''secret'', ''LATITUDE_PROJECT_ID'' \<mapsto> ''42'']"

definition no_content :: Response where
  "no_content = \<lparr>status = 204, content_length = None, body = Never\<rparr>"

definition clash_files :: Files where
  "clash_files =
     \<lparr>dotenv_file = Some [(''LATITUDE_API_KEY'', ''key-from-dotenv'')],
      global_config =
        ConfigJson (JObj [(''latitude'',
          JObj [(''environments'', JObj [(''LATITUDE_API_KEY'', JStr ''key-from-global'')])])])\<rparr>"

definition fresh_process :: Process where
  "fresh_process =
     \<lparr>process_env = Map.empty, packageName = ''mcp-latitude-prompts'', configLoaded = False,
      fs_log = []\<rparr>"

definition two_docs :: json where
  "two_docs =
     JArr [JObj [(''path'', JStr ''onboarding/welcome''), (''versionUuid'', JStr ''v1'')],
           JObj [(''versionUuid'', JStr ''v1''), (''path'', JStr ''support/triage'')]]"

definition docs_parse :: "string \<Rightarrow> string + json" where
  "docs_parse text = (if text = ''docs'' then Inr two_docs else Inl ''Unexpected token'')"

definition docs_response :: Response where
  "docs_response = \<lparr>status = 200, content_length = Some ''120'', body = After 5 (Inr ''docs'')\<rparr>"

definition empty_key_env :: env where
  "empty_key_env = [''LATITUDE_API_KEY'' \<mapsto> [], ''LATITUDE_PROJECT_ID'' \<mapsto> ''42'']"

definition slow_body :: Response where
  "slow_body = \<lparr>status = 200, content_length = Some ''120'', body = After 5000 (Inr ''docs'')\<rparr>"

definition stalled_body :: Response where
  "stalled_body = \<lparr>status = 200, content_length = Some ''120'', body = Never\<rparr>"

definition one_second :: RequestOptions where
  "one_second = no_options\<lparr>opt_timeout := Some 1000\<rparr>"

definition unavailable :: "nat \<Rightarrow> ClassifiedError" where
  "unavailable n =
     \<lparr>kind = ServerError, httpStatus = Some 503, detail = ''attempt '' @ string_of_nat n\<rparr>"

definition denied :: ClassifiedError where
  "denied = \<lparr>kind = AuthInvalid, httpStatus = Some 401, detail = ''bad key''\<rparr>"

definition recovers :: "nat \<Rightarrow> ClassifiedError + string" where
  "recovers n = (if n < 3 then Inl (unavailable n) else Inr ''done'')"

definition always_unavailable :: "nat \<Rightarrow> ClassifiedError + string" where
  "always_unavailable n = Inl (unavailable n)"

definition denied_after_outage :: "nat \<Rightarrow> ClassifiedError + string" where
  "denied_after_outage n = (if n < 2 then Inl (unavailable n) else Inl denied)"

definition docs_with_null :: json where
  "docs_with_null =
     JArr [JObj [(''path'', JStr ''onboarding/welcome'')], JNull,
           JObj [(''path'', JStr ''support/triage'')]]"

definition null_parse :: "string \<Rightarrow> string + json" where
  "null_parse text = (if text = ''docs'' then Inr docs_with_null else Inl ''Unexpected token'')"

section \<open>Properties of the error classifier\<close>

lemma detectErrorType_phrases:
  "detectErrorType error =
     (let m = errorMessage_of error; sc = statusCode_of error in
      if network_phrase m then (NETWORK_ERROR, 500)
      else if rate_limit_phrase m \<or> sc = Some 429 then (RATE_LIMIT_ERROR, 429)
      else if not_found_phrase m \<or> sc = Some 404 then (NOT_FOUND, 404)
      else if access_phrase m \<or> sc = Some 401 \<or> sc = Some 403
        then (ACCESS_DENIED, number_or sc 403)
      else if cursor_phrase m then (INVALID_CURSOR, 400)
      else if validation_phrase m \<or> sc = Some 400 \<or> sc = Some 422
        then (VALIDATION_ERROR, number_or sc 400)
      else (UNEXPECTED_ERROR, number_or sc 500))"
  unfolding detectErrorType_def network_phrase_def rate_limit_phrase_def
      not_found_phrase_def access_phrase_def cursor_phrase_def validation_phrase_def Let_def
  by (simp only: disj_assoc)

text \<open>
  C1, as stated, fails: a 502 whose message has none of the phrases is classified
  \<open>UNEXPECTED_ERROR\<close> with status 502, where the specification's table gives
  \<open>ServerError\<close>. \<open>ErrorCode\<close> has no server-error kind.
\<close>

theorem detectErrorType_server_error_counterexample:
  "\<not> matches_pattern ''Bad Gateway'' \<and>
   detectErrorType (JsError ''Bad Gateway'' (Some 502)) = (UNEXPECTED_ERROR, 502) \<and>
   spec_kind_of_status 502 = ServerError \<and>
   kind_of_code UNEXPECTED_ERROR \<noteq> ServerError"
  by (simp add: detectErrorType_def matches_pattern_def network_phrase_def rate_limit_phrase_def
      not_found_phrase_def access_phrase_def cursor_phrase_def validation_phrase_def
      spec_kind_of_status_def number_or_def)

text \<open>
  C1, amended: for an error with a non-zero status code whose message has none of the
  phrases, the classifier's kind is fixed by the status code alone and the status code is
  kept: 429 gives \<open>RATE_LIMIT_ERROR\<close>, 404 \<open>NOT_FOUND\<close>, 401 and 403
  \<open>ACCESS_DENIED\<close>, 400 and 422 \<open>VALIDATION_ERROR\<close>, and every other status, 502,
  503 and 504 among them, \<open>UNEXPECTED_ERROR\<close>. Read in the specification's taxonomy this
  is its table except at 502, 503 and 504.
\<close>

theorem detectErrorType_status_alone:
  assumes "\<not> matches_pattern m" and "0 < s"
  shows "detectErrorType (JsError m (Some s)) = (code_of_status s, s) \<and>
         kind_of_code (code_of_status s) =
           (if s = 502 \<or> s = 503 \<or> s = 504 then UnexpectedError else spec_kind_of_status s)"
  using assms
  by (simp add: detectErrorType_phrases matches_pattern_def code_of_status_def number_or_def
      spec_kind_of_status_def)

theorem detectErrorType_status_alone_witness:
  "\<not> matches_pattern ''Bad Gateway'' \<and> (0::nat) < 503 \<and>
   detectErrorType (JsError ''Bad Gateway'' (Some 503)) = (UNEXPECTED_ERROR, 503) \<and>
   kind_of_code UNEXPECTED_ERROR = UnexpectedError"
proof -
  have no_phrase: "\<not> matches_pattern ''Bad Gateway''"
    by (simp add: matches_pattern_def network_phrase_def rate_limit_phrase_def
        not_found_phrase_def access_phrase_def cursor_phrase_def validation_phrase_def)
  have positive: "(0::nat) < 503" by simp
  from detectErrorType_status_alone [OF no_phrase positive] no_phrase
  show ?thesis by (simp add: code_of_status_def)
qed

text \<open>
  C7, as stated, fails: a 404 whose message contains \<open>Failed to fetch\<close> is classified
  \<open>NETWORK_ERROR\<close> with status 500. The network phrases are tested before any status
  code is looked at.
\<close>

theorem detectErrorType_phrase_before_status_counterexample:
  "detectErrorType (JsError ''Failed to fetch document'' (Some 404)) = (NETWORK_ERROR, 500) \<and>
   spec_kind_of_status 404 = NotFound \<and>
   kind_of_code NETWORK_ERROR \<noteq> NotFound"
  by (simp add: detectErrorType_def spec_kind_of_status_def)

text \<open>
  C7, amended: the classifier tests its categories in a fixed order (network, rate
  limit, not found, access, cursor, validation), each one by its phrases or its status
  codes. For a status code that it maps (429, 404, 401, 403, 400, 422) the kind is the one
  of the status code, and the status code is kept, whenever the message has no phrase of a
  category tested before the category of that status code; phrases of that category and of
  later ones change nothing.
\<close>

theorem detectErrorType_status_after_earlier_phrases:
  assumes "s = 429 \<or> s = 404 \<or> s = 401 \<or> s = 403 \<or> s = 400 \<or> s = 422"
      and "\<not> earlier_phrase s m"
  shows "detectErrorType (JsError m (Some s)) = (code_of_status s, s) \<and>
         kind_of_code (code_of_status s) = spec_kind_of_status s"
  using assms
  by (auto simp add: detectErrorType_phrases earlier_phrase_def code_of_status_def number_or_def
      spec_kind_of_status_def)

theorem detectErrorType_status_after_earlier_phrases_witness:
  "\<not> earlier_phrase 404 ''invalid access'' \<and> access_phrase ''invalid access'' \<and>
   validation_phrase ''invalid access'' \<and>
   detectErrorType (JsError ''invalid access'' (Some 404)) = (NOT_FOUND, 404) \<and>
   kind_of_code NOT_FOUND = spec_kind_of_status 404"
proof -
  have early: "\<not> earlier_phrase 404 ''invalid access''"
    by (simp add: earlier_phrase_def network_phrase_def rate_limit_phrase_def)
  have mapped: "(404::nat) = 429 \<or> (404::nat) = 404 \<or> (404::nat) = 401 \<or> (404::nat) = 403 \<or>
                (404::nat) = 400 \<or> (404::nat) = 422"
    by simp
  from detectErrorType_status_after_earlier_phrases [OF mapped early] early
  show ?thesis
    by (simp add: code_of_status_def access_phrase_def validation_phrase_def)
qed

lemma suffix_of_append: "suffix m (xs @ m)"
  by (simp add: suffix_def)

text \<open>
  C8: for \<open>NOT_FOUND\<close> and \<open>ACCESS_DENIED\<close> the rendered message does not depend on
  the original message: any two original messages, present or absent, give the same
  text. For every other kind the rendered message ends with the original message, and
  when the original message is not empty it is the message of the kind followed by
  \<open>Error details:\<close> and the original message.
\<close>

theorem user_message_detail_policy:
  assumes "c1 = NOT_FOUND \<or> c1 = ACCESS_DENIED"
      and "c2 \<noteq> NOT_FOUND" and "c2 \<noteq> ACCESS_DENIED"
  shows "createUserFriendlyErrorMessage c1 ctx m1 = createUserFriendlyErrorMessage c1 ctx m2 \<and>
         suffix m (createUserFriendlyErrorMessage c2 ctx (Some m)) \<and>
         (m \<noteq> [] \<longrightarrow>
            createUserFriendlyErrorMessage c2 ctx (Some m) =
              switch_message c2 ctx (Some m) @ '' Error details: '' @ m)"
proof (intro conjI)
  show "createUserFriendlyErrorMessage c1 ctx m1 = createUserFriendlyErrorMessage c1 ctx m2"
    using assms(1) by (auto simp add: createUserFriendlyErrorMessage_def switch_message_def Let_def)
next
  show "suffix m (createUserFriendlyErrorMessage c2 ctx (Some m))"
  proof (cases "m = []")
    case True
    then show ?thesis by simp
  next
    case False
    with assms(2,3) have "createUserFriendlyErrorMessage c2 ctx (Some m) =
        (switch_message c2 ctx (Some m) @ '' Error details: '') @ m"
      by (simp add: createUserFriendlyErrorMessage_def truthy_def Let_def)
    then show ?thesis by (simp only: suffix_of_append)
  qed
next
  show "m \<noteq> [] \<longrightarrow> createUserFriendlyErrorMessage c2 ctx (Some m) =
      switch_message c2 ctx (Some m) @ '' Error details: '' @ m"
    using assms(2,3) by (simp add: createUserFriendlyErrorMessage_def truthy_def Let_def)
qed

theorem user_message_detail_policy_witness:
  "createUserFriendlyErrorMessage NOT_FOUND prompt_ctx
       (Some ''no row with uuid 7 in table documents'') =
     createUserFriendlyErrorMessage NOT_FOUND prompt_ctx None \<and>
   createUserFriendlyErrorMessage NOT_FOUND prompt_ctx None =
     ''Prompt onboarding not found: onboarding. Verify the ID is correct and that you have access to this prompt.'' \<and>
   createUserFriendlyErrorMessage UNEXPECTED_ERROR prompt_ctx (Some ''boom'') =
     ''An unexpected error occurred while running prompt onboarding. Error details: boom''"
proof -
  have a: "NOT_FOUND = NOT_FOUND \<or> NOT_FOUND = ACCESS_DENIED" by simp
  have b: "UNEXPECTED_ERROR \<noteq> NOT_FOUND" by simp
  have c: "UNEXPECTED_ERROR \<noteq> ACCESS_DENIED" by simp
  have d: "''boom'' \<noteq> []" by simp
  from user_message_detail_policy [OF a b c, of prompt_ctx
      "Some ''no row with uuid 7 in table documents''" None "''boom''"] d
  show ?thesis
    by (simp add: createUserFriendlyErrorMessage_def switch_message_def prompt_ctx_def
        entityIdStr_of_def entity_of_def truthy_def or_else_def toLowerCase_def
        toLowerCase_char_def Let_def)
qed

section \<open>Properties of the configuration loader\<close>

lemma set_if_undefined_lookup:
  "set_if_undefined kvs e k = (case e k of Some v \<Rightarrow> Some v | None \<Rightarrow> map_of kvs k)"
  by (induction kvs arbitrary: e) (auto split: option.splits)

text \<open>
  The precedence that \<open>load\<close> has when both files are present: the environment of the
  process, then the global configuration file, then the \<^verbatim>\<open>.env\<close> file. The global
  file is read first and both writers keep a key that is already set.
\<close>

lemma load_precedence:
  assumes "\<not> configLoaded p"
      and "global_config fs = ConfigJson config" and "config \<noteq> JNull"
      and "findConfigSection config (potentialKeys (packageName p)) = Some environments"
      and "dotenv_file fs = Some parsed"
  shows "process_env (load fs p) key =
           (case process_env p key of
              Some v \<Rightarrow> Some v
            | None \<Rightarrow>
               (case map_of (map (\<lambda>(key, value). (key, js_String value))
                               (js_entries environments)) key of
                  Some v \<Rightarrow> Some v
                | None \<Rightarrow> map_of parsed key))"
  using assms
  by (simp add: load_def loadFromEnvFile_def loadFromGlobalConfig_def set_if_undefined_lookup
      split: option.splits)

text \<open>
  C5: the loader documents the precedence process environment, \<^verbatim>\<open>.env\<close> file, global
  configuration file. For a key that the process environment lacks and both files set,
  \<open>load\<close> leaves the value of the global configuration file, where the documented
  precedence gives the value of the \<^verbatim>\<open>.env\<close> file.
\<close>

theorem load_global_config_beats_dotenv:
  "config_get (process_env (load clash_files fresh_process)) ''LATITUDE_API_KEY'' None =
     Some ''key-from-global'' \<and>
   documented_value (process_env fresh_process) [(''LATITUDE_API_KEY'', ''key-from-dotenv'')]
     [(''LATITUDE_API_KEY'', ''key-from-global'')] ''LATITUDE_API_KEY'' = Some ''key-from-dotenv''"
  by (simp add: clash_files_def fresh_process_def load_def loadFromEnvFile_def
      loadFromGlobalConfig_def potentialKeys_def config_get_def truthy_def documented_value_def)

text \<open>
  C6: loading is idempotent. Whatever the state of the process and whatever the two files
  hold at either call, a second \<open>load\<close> returns the state the first one left: the same
  environment, hence the same value for every key, and no new access to either file. The
  first call always leaves the \<open>configLoaded\<close> guard set.
\<close>

theorem load_idempotent:
  "load fs2 (load fs1 p) = load fs1 p \<and>
   configLoaded (load fs1 p) \<and>
   fs_log (load fs2 (load fs1 p)) = fs_log (load fs1 p) \<and>
   (\<forall>key dv. config_get (process_env (load fs2 (load fs1 p))) key dv =
              config_get (process_env (load fs1 p)) key dv)"
  by (simp add: load_def)

section \<open>Properties of the request executors\<close>

lemma getConfig_ok:
  assumes "truthy (e ''LATITUDE_API_KEY'')" and "truthy (e ''LATITUDE_PROJECT_ID'')"
  shows "\<exists>cfg. getConfig e = Inr cfg"
  using assms by (simp add: getConfig_def config_get_def Let_def)

lemma getLatitudeCredentials_ok:
  assumes "truthy (e ''LATITUDE_API_KEY'')"
  shows "\<exists>key base. getLatitudeCredentials d e = Inr (key, base)"
  using assms by (simp add: getLatitudeCredentials_def config_get_def Let_def)

lemma request_try_empty:
  assumes "ok response" and "content_length response = Some ''0'' \<or> status response = 204"
      and "fetch d init = After t (Inr response)" and "t < ms"
  shows "request_try d ms init = Some (t, Inr (JObj []))"
  using assms by (auto simp add: request_try_def)

lemma fetchLatitudeApi_try_empty:
  assumes "ok response" and "content_length response = Some ''0'' \<or> status response = 204"
      and "fetch d init = After t (Inr response)"
  shows "fetchLatitudeApi_try d init = Some (t, Inr (JObj []))"
  using assms by (auto simp add: fetchLatitudeApi_try_def)

text \<open>
  C9: when the credentials are present and \<^verbatim>\<open>fetch\<close> answers in time with a success
  status, a response whose \<^verbatim>\<open>content-length\<close> header is \<open>0\<close> or whose status is 204
  makes both executors return the empty object, at the moment the headers arrive. This
  holds for every \<^verbatim>\<open>JSON.parse\<close>, one that rejects every text included, and for
  every body, one that is never delivered included: the body is neither read nor parsed.
\<close>

theorem empty_success_body:
  assumes "ok response"
      and "content_length response = Some ''0'' \<or> status response = 204"
      and "\<forall>init. fetch d init = After t (Inr response)"
      and "t < effective_timeout options"
      and "truthy (e ''LATITUDE_API_KEY'')" and "truthy (e ''LATITUDE_PROJECT_ID'')"
  shows "fst (request (d\<lparr>JSON_parse := parse\<rparr>) e endpoint options) = Some (t, Inr (JObj [])) \<and>
         fst (fetchLatitudeApi (d\<lparr>JSON_parse := parse\<rparr>) e endpoint options) =
           Some (t, Inr (JObj []))"
proof -
  let ?d = "d\<lparr>JSON_parse := parse\<rparr>"
  have answered: "fetch ?d init = After t (Inr response)" for init
    using assms(3) by simp
  obtain cfg where cfg: "getConfig e = Inr cfg"
    using getConfig_ok [of e] assms(5,6) by blast
  obtain key base where cred: "getLatitudeCredentials ?d e = Inr (key, base)"
    using getLatitudeCredentials_ok [of e ?d] assms(5) by blast
  have "fst (request ?d e endpoint options) = Some (t, Inr (JObj []))"
    by (simp add: request_def cfg Let_def
        request_try_empty [OF assms(1,2) answered assms(4)])
  moreover have "fst (fetchLatitudeApi ?d e endpoint options) = Some (t, Inr (JObj []))"
    by (simp add: fetchLatitudeApi_def cred Let_def try_catch_def
        fetchLatitudeApi_try_empty [OF assms(1,2) answered])
  ultimately show ?thesis by simp
qed

theorem empty_success_body_witness:
  "fst (request (sample_deps (\<lambda>init. After 35 (Inr no_content)) no_parse) sample_env
          ''/projects/42/versions/live/documents/old''
          (no_options\<lparr>opt_method := Some ''DELETE''\<rparr>)) =
     Some (35, Inr (JObj [])) \<and>
   fst (fetchLatitudeApi (sample_deps (\<lambda>init. After 35 (Inr no_content)) no_parse) sample_env
          ''/projects'' no_options) = Some (35, Inr (JObj []))"
proof -
  let ?d = "sample_deps (\<lambda>init. After 35 (Inr no_content)) no_parse"
  have a: "ok no_content" by (simp add: ok_def no_content_def)
  have b: "content_length no_content = Some ''0'' \<or> status no_content = 204"
    by (simp add: no_content_def)
  have c: "\<forall>init. fetch ?d init = After 35 (Inr no_content)" by (simp add: sample_deps_def)
  have d: "35 < effective_timeout (no_options\<lparr>opt_method := Some ''DELETE''\<rparr>)"
    by (simp add: effective_timeout_def no_options_def number_or_def API_TIMEOUT_MS_def)
  have d': "35 < effective_timeout no_options"
    by (simp add: effective_timeout_def no_options_def number_or_def API_TIMEOUT_MS_def)
  have k: "truthy (sample_env ''LATITUDE_API_KEY'')" by (simp add: sample_env_def truthy_def)
  have p: "truthy (sample_env ''LATITUDE_PROJECT_ID'')" by (simp add: sample_env_def truthy_def)
  have same: "?d\<lparr>JSON_parse := no_parse\<rparr> = ?d" by (simp add: sample_deps_def)
  from empty_success_body [OF a b c d k p, of no_parse "''/projects/42/versions/live/documents/old''"]
       empty_success_body [OF a b c d' k p, of no_parse "''/projects''"]
  show ?thesis by (simp only: same)
qed

lemma get_prop_path_of: "doc \<noteq> JNull \<Longrightarrow> get_prop doc ''path'' = Some (path_of doc)"
  by (cases doc) simp_all

lemma map_path_objects: "JNull \<notin> set docs \<Longrightarrow> map_path docs = Inr (map path_of docs)"
  by (induction docs) (auto simp add: get_prop_path_of)

lemma map_path_null: "JNull \<in> set docs \<Longrightarrow> \<exists>thrown. map_path docs = Inl thrown"
  by (induction docs) (auto split: sum.splits option.splits)

text \<open>
  C10, as stated, fails: \<open>listDocuments\<close> can succeed with a value whose paths
  \<open>getPromptNames\<close> does not return. The body is cast to the list type unchecked, so
  an array holding a \<^verbatim>\<open>null\<close> between two documents is a success of
  \<open>listDocuments\<close>, and a 204 makes it succeed with the empty object; in both cases
  the mapping throws inside the \<^verbatim>\<open>try\<close> and the result is the empty list.
\<close>

theorem getPromptNames_loses_paths_counterexample:
  "fst (listDocuments (sample_deps (\<lambda>init. After 40 (Inr docs_response)) null_parse)
          sample_env ''live'') = Some (45, Inr docs_with_null) \<and>
   fst (getPromptNames (sample_deps (\<lambda>init. After 40 (Inr docs_response)) null_parse)
          sample_env) = Some (45, Inr []) \<and>
   fst (listDocuments (sample_deps (\<lambda>init. After 40 (Inr no_content)) no_parse)
          sample_env ''live'') = Some (40, Inr (JObj [])) \<and>
   fst (getPromptNames (sample_deps (\<lambda>init. After 40 (Inr no_content)) no_parse)
          sample_env) = Some (40, Inr [])"
  by (simp add: getPromptNames_def try_catch_def then_do_def docs_paths_def
      listDocuments_def getProjectId_def getConfig_def config_get_def truthy_def
      Let_def sample_env_def request_def request_try_def sample_deps_def docs_response_def
      ok_def null_parse_def docs_with_null_def no_options_def effective_timeout_def number_or_def
      API_TIMEOUT_MS_def or_else_def no_content_def null_read_message_def)

text \<open>
  C10, amended: \<open>getPromptNames\<close> never throws, and its result is fixed by the
  outcome of \<open>listDocuments\<close> of the live version. When that call throws, whatever
  the error, the result is the empty list. When it returns an array without a
  \<^verbatim>\<open>null\<close> element, the result is the \<^verbatim>\<open>path\<close> of each element, in the order of
  the array. When it returns anything else (an array with a \<^verbatim>\<open>null\<close> element, or a
  value that is no array) the result is the empty list. It stays pending exactly when
  \<open>listDocuments\<close> does.
\<close>

theorem getPromptNames_total:
  "fst (getPromptNames d e) =
     (case fst (listDocuments d e ''live'') of
        None \<Rightarrow> None
      | Some (t, Inl error) \<Rightarrow> Some (t, Inr [])
      | Some (t, Inr (JArr docs)) \<Rightarrow>
          Some (t, Inr (if JNull \<in> set docs then [] else map path_of docs))
      | Some (t, Inr other) \<Rightarrow> Some (t, Inr [])) \<and>
   (\<forall>t thrown. fst (getPromptNames d e) \<noteq> Some (t, Inl thrown))"
proof (intro conjI allI)
  show "fst (getPromptNames d e) =
     (case fst (listDocuments d e ''live'') of
        None \<Rightarrow> None
      | Some (t, Inl error) \<Rightarrow> Some (t, Inr [])
      | Some (t, Inr (JArr docs)) \<Rightarrow>
          Some (t, Inr (if JNull \<in> set docs then [] else map path_of docs))
      | Some (t, Inr other) \<Rightarrow> Some (t, Inr []))"
  proof (cases "fst (listDocuments d e ''live'')")
    case None
    then show ?thesis
      by (simp add: getPromptNames_def try_catch_def then_do_def split_beta)
  next
    case (Some settled)
    obtain t r where settled: "settled = (t, r)" by (cases settled)
    show ?thesis
    proof (cases r)
      case (Inl error)
      with Some settled show ?thesis
        by (simp add: getPromptNames_def try_catch_def then_do_def split_beta)
    next
      case (Inr v)
      show ?thesis
      proof (cases v)
        case (JArr docs)
        show ?thesis
        proof (cases "JNull \<in> set docs")
          case True
          then obtain thrown where "map_path docs = Inl thrown"
            using map_path_null by blast
          with Some settled Inr JArr True show ?thesis
            by (simp add: getPromptNames_def try_catch_def then_do_def split_beta docs_paths_def)
        next
          case False
          with Some settled Inr JArr map_path_objects [OF False] show ?thesis
            by (simp add: getPromptNames_def try_catch_def then_do_def split_beta docs_paths_def)
        qed
      qed (use Some settled Inr in
          \<open>simp_all add: getPromptNames_def try_catch_def then_do_def split_beta docs_paths_def\<close>)
    qed
  qed
next
  fix t thrown
  show "fst (getPromptNames d e) \<noteq> Some (t, Inl thrown)"
    by (auto simp add: getPromptNames_def try_catch_def then_do_def split_beta
        split: option.splits sum.splits prod.splits)
qed

theorem getPromptNames_total_witness:
  "fst (getPromptNames (sample_deps (\<lambda>init. After 40 (Inr docs_response)) docs_parse)
          Map.empty) = Some (0, Inr []) \<and>
   fst (getPromptNames (sample_deps (\<lambda>init. After 40 (Inr docs_response)) docs_parse)
          sample_env) =
     Some (45, Inr [Some (JStr ''onboarding/welcome''), Some (JStr ''support/triage'')]) \<and>
   fst (getPromptNames (sample_deps (\<lambda>init. After 40 (Inr docs_response)) null_parse)
          sample_env) = Some (45, Inr [])"
proof -
  let ?d = "sample_deps (\<lambda>init. After 40 (Inr docs_response)) docs_parse"
  let ?n = "sample_deps (\<lambda>init. After 40 (Inr docs_response)) null_parse"
  have fails: "fst (listDocuments ?d Map.empty ''live'') =
      Some (0, Inl (PlatformExn (ErrorObject ClsError ''Error'' api_key_required)))"
    by (simp add: listDocuments_def getProjectId_def getConfig_def config_get_def truthy_def
        Let_def)
  have succeeds: "fst (listDocuments ?d sample_env ''live'') = Some (45, Inr two_docs)"
    by (simp add: listDocuments_def getProjectId_def getConfig_def config_get_def truthy_def
        Let_def sample_env_def request_def request_try_def sample_deps_def docs_response_def
        ok_def docs_parse_def no_options_def effective_timeout_def number_or_def
        API_TIMEOUT_MS_def or_else_def)
  have holed: "fst (listDocuments ?n sample_env ''live'') = Some (45, Inr docs_with_null)"
    by (simp add: listDocuments_def getProjectId_def getConfig_def config_get_def truthy_def
        Let_def sample_env_def request_def request_try_def sample_deps_def docs_response_def
        ok_def null_parse_def no_options_def effective_timeout_def number_or_def
        API_TIMEOUT_MS_def or_else_def)
  from getPromptNames_total [of ?d Map.empty] getPromptNames_total [of ?d sample_env]
       getPromptNames_total [of ?n sample_env]
  show ?thesis
    by (simp add: fails succeeds holed two_docs_def docs_with_null_def)
qed

lemma truthy_None: "\<not> truthy None"
  by (simp add: truthy_def)

text \<open>
  Without an API key neither executor hands anything to \<^verbatim>\<open>fetch\<close>: each throws at
  once, and \<open>getPromptNames\<close> returns.
\<close>

lemma no_request_without_api_key:
  assumes "\<not> truthy (e ''LATITUDE_API_KEY'')"
  shows "snd (request d e endpoint options) = [] \<and>
         snd (fetchLatitudeApi d e endpoint options) = [] \<and>
         snd (listDocuments d e versionUuid) = [] \<and>
         snd (getPromptNames d e) = [] \<and>
         (\<exists>error. fst (request d e endpoint options) = Some (0, Inl error)) \<and>
         (\<exists>error. fst (fetchLatitudeApi d e endpoint options) = Some (0, Inl error)) \<and>
         (\<exists>error. fst (listDocuments d e versionUuid) = Some (0, Inl error))"
  using assms
  by (simp add: request_def fetchLatitudeApi_def listDocuments_def getPromptNames_def
      getProjectId_def getConfig_def getLatitudeCredentials_def config_get_def Let_def
      truthy_None try_catch_def then_do_def)

text \<open>
  C4: with an empty \<^verbatim>\<open>LATITUDE_API_KEY\<close> no request is sent, but the error is not of
  type \<open>AUTH_MISSING\<close>: the service throws an \<open>AUTH_INVALID\<close> error with status 401,
  api.ts throws an untyped \<^verbatim>\<open>Error\<close>, and \<open>getPromptNames\<close> returns the empty list.
\<close>

theorem missing_api_key_is_auth_invalid:
  "fetchLatitudeApi (sample_deps (\<lambda>init. After 40 (Inr docs_response)) docs_parse)
     empty_key_env ''/projects'' no_options =
     (Some (0, Inl (McpErrorExn
        \<lparr>mcp_message = ''LATITUDE_API_KEY is required. Set it in your environment or .env file.'',
         mcp_type = AUTH_INVALID, mcp_statusCode = Some 401, mcp_originalError = NoOriginal\<rparr>)),
      []) \<and>
   AUTH_INVALID \<noteq> AUTH_MISSING \<and>
   listDocuments (sample_deps (\<lambda>init. After 40 (Inr docs_response)) docs_parse)
     empty_key_env ''live'' =
     (Some (0, Inl (PlatformExn (ErrorObject ClsError ''Error'' api_key_required))), []) \<and>
   getPromptNames (sample_deps (\<lambda>init. After 40 (Inr docs_response)) docs_parse) empty_key_env =
     (Some (0, Inr []), [])"
  by (simp add: fetchLatitudeApi_def getLatitudeCredentials_def empty_key_env_def config_get_def
      truthy_def createAuthInvalidError_def Let_def listDocuments_def getProjectId_def
      getConfig_def getPromptNames_def try_catch_def then_do_def)

text \<open>
  What the timer of \<open>request\<close> does bound: when \<^verbatim>\<open>fetch\<close> has not settled at the
  timeout, the call is aborted at the timeout and throws the \<open>TimeoutError\<close> (408).
\<close>

lemma request_aborts_unanswered:
  assumes "truthy (e ''LATITUDE_API_KEY'')" and "truthy (e ''LATITUDE_PROJECT_ID'')"
      and "\<forall>init. fetch d init = Never \<or>
             (\<exists>t r. fetch d init = After t r \<and> effective_timeout options \<le> t)"
  shows "fst (request d e endpoint options) =
           Some (effective_timeout options,
             Inl (LatitudeApiErrorExn
               \<lparr>name = Some (JStr ''TimeoutError''),
                errorCode = Some (JStr ''TIMEOUT''),
                message = ''Request timed out after '' @
                          seconds_str (effective_timeout options) @ ''s'',
                statusCode = 408,
                details = None\<rparr>))"
proof -
  obtain cfg where cfg: "getConfig e = Inr cfg"
    using getConfig_ok [of e] assms(1,2) by blast
  have "request_try d (effective_timeout options) init =
      Some (effective_timeout options, Inl (PlatformExn abort_error))" for init
  proof -
    from assms(3) consider "fetch d init = Never"
      | t r where "fetch d init = After t r" and "effective_timeout options \<le> t"
      by blast
    then show ?thesis
      by cases (simp_all add: request_try_def)
  qed
  then show ?thesis
    by (simp add: request_def cfg Let_def request_catch_def abort_error_def)
qed

text \<open>
  C2: \<open>request\<close> cancels its timer as soon as the headers have arrived, so the read of
  the body is not bounded. With a timeout of one second and headers after 10 ms, a body
  that takes five seconds is awaited and returned after 5010 ms, and a body that never
  ends leaves the call pending for ever; no \<open>TimeoutError\<close> is raised. The service's
  \<open>fetchLatitudeApi\<close> has no timer: an unanswered \<^verbatim>\<open>fetch\<close> leaves it pending.
\<close>

theorem timer_cleared_before_body:
  "effective_timeout one_second = 1000 \<and>
   fst (request (sample_deps (\<lambda>init. After 10 (Inr slow_body)) docs_parse) sample_env
          ''/projects/42/versions/live/documents'' one_second) = Some (5010, Inr two_docs) \<and>
   fst (request (sample_deps (\<lambda>init. After 10 (Inr stalled_body)) docs_parse) sample_env
          ''/projects/42/versions/live/documents'' one_second) = None \<and>
   fst (fetchLatitudeApi (sample_deps (\<lambda>init. Never) docs_parse) sample_env
          ''/projects'' one_second) = None"
  by (simp add: one_second_def no_options_def effective_timeout_def number_or_def request_def
      getConfig_def config_get_def truthy_def sample_env_def Let_def request_try_def
      sample_deps_def slow_body_def stalled_body_def ok_def docs_parse_def or_else_def
      fetchLatitudeApi_def getLatitudeCredentials_def fetchLatitudeApi_try_def try_catch_def)

section \<open>Properties of the retry policy\<close>

text \<open>Attempts that fail with a retryable kind, within the budget, are passed over.\<close>

lemma withRetry_from_skip:
  assumes "\<forall>n. a \<le> n \<and> n < b \<longrightarrow> (\<exists>f. op n = Inl f \<and> kind f \<in> retryableKinds p)"
      and "a \<le> b" and "b \<le> maxAttempts p"
  shows "withRetry_from p op a = withRetry_from p op b"
  using assms
proof (induction "b - a" arbitrary: a)
  case 0
  then show ?case by simp
next
  case (Suc k)
  then have lt: "a < b" by simp
  with Suc.prems(1) obtain f where f: "op a = Inl f" "kind f \<in> retryableKinds p"
    by (metis order_refl)
  from lt Suc.prems(3) have budget: "a < maxAttempts p" by simp
  have step: "withRetry_from p op a = withRetry_from p op (Suc a)"
    using f budget by (subst withRetry_from.simps) simp
  have "withRetry_from p op (Suc a) = withRetry_from p op b"
  proof (rule Suc.hyps(1))
    show "k = b - Suc a" using Suc.hyps(2) by simp
    show "\<forall>n. Suc a \<le> n \<and> n < b \<longrightarrow> (\<exists>f. op n = Inl f \<and> kind f \<in> retryableKinds p)"
      using Suc.prems(1) by simp
    show "Suc a \<le> b" using lt by simp
    show "b \<le> maxAttempts p" by (rule Suc.prems(3))
  qed
  with step show ?case by simp
qed

lemma withRetry_from_success: "op a = Inr r \<Longrightarrow> withRetry_from p op a = (Inr r, a)"
  by (subst withRetry_from.simps) simp

lemma withRetry_from_last:
  "op a = Inl f \<Longrightarrow> maxAttempts p \<le> a \<Longrightarrow> withRetry_from p op a = (Inl f, a)"
  by (subst withRetry_from.simps) simp

lemma withRetry_from_fatal:
  "op a = Inl f \<Longrightarrow> kind f \<notin> retryableKinds p \<Longrightarrow> withRetry_from p op a = (Inl f, a)"
  by (subst withRetry_from.simps) simp

text \<open>
  C3: under the policy of the specification (three attempts), an operation whose first
  \<open>k < 3\<close> attempts fail with \<open>ServerError\<close> and whose next attempt succeeds returns
  that success, after \<open>k + 1\<close> attempts; an operation whose three attempts fail with
  \<open>ServerError\<close> returns the error of the third attempt as it is, after exactly three
  attempts; and a failure of kind \<open>AuthInvalid\<close> ends the run at the attempt where it
  occurs, with that error, whatever the attempt budget.
\<close>

theorem withRetry_default_policy:
  assumes "\<forall>n. 1 \<le> n \<and> n \<le> k \<longrightarrow> (\<exists>f. op1 n = Inl f \<and> kind f = ServerError)"
      and "k < 3" and "op1 (Suc k) = Inr result"
      and "\<forall>n. 1 \<le> n \<and> n \<le> 3 \<longrightarrow> (\<exists>f. op2 n = Inl f \<and> kind f = ServerError)"
      and "\<forall>n. 1 \<le> n \<and> n < a \<longrightarrow> (\<exists>f. op3 n = Inl f \<and> kind f = ServerError)"
      and "1 \<le> a" and "a \<le> budget" and "op3 a = Inl refused" and "kind refused = AuthInvalid"
  shows "withRetry default_policy op1 = (Inr result, Suc k) \<and>
         withRetry default_policy op2 = (op2 3, 3) \<and>
         withRetry (default_policy\<lparr>maxAttempts := budget\<rparr>) op3 = (Inl refused, a)"
proof (intro conjI)
  have "withRetry_from default_policy op1 1 = withRetry_from default_policy op1 (Suc k)"
    using assms(1,2) by (intro withRetry_from_skip) (auto simp add: default_policy_def)
  then show "withRetry default_policy op1 = (Inr result, Suc k)"
    using withRetry_from_success [of op1 "Suc k" result default_policy] assms(3)
    by (simp add: withRetry_def)
next
  obtain f where f: "op2 3 = Inl f" using assms(4) by force
  have "withRetry_from default_policy op2 1 = withRetry_from default_policy op2 3"
    using assms(4) by (intro withRetry_from_skip) (auto simp add: default_policy_def)
  moreover have "withRetry_from default_policy op2 3 = (Inl f, 3)"
    using f by (intro withRetry_from_last) (simp_all add: default_policy_def)
  ultimately show "withRetry default_policy op2 = (op2 3, 3)"
    by (simp add: withRetry_def f)
next
  let ?p = "default_policy\<lparr>maxAttempts := budget\<rparr>"
  have "withRetry_from ?p op3 1 = withRetry_from ?p op3 a"
    using assms(5,6,7) by (intro withRetry_from_skip) (auto simp add: default_policy_def)
  moreover have "withRetry_from ?p op3 a = (Inl refused, a)"
    using assms(8,9) by (intro withRetry_from_fatal) (simp_all add: default_policy_def)
  ultimately show "withRetry ?p op3 = (Inl refused, a)"
    by (simp add: withRetry_def)
qed

theorem withRetry_default_policy_witness:
  "withRetry default_policy recovers = (Inr ''done'', 3) \<and>
   withRetry default_policy always_unavailable = (Inl (unavailable 3), 3) \<and>
   withRetry (default_policy\<lparr>maxAttempts := 10\<rparr>) denied_after_outage = (Inl denied, 2)"
proof -
  have a: "\<forall>n. 1 \<le> n \<and> n \<le> 2 \<longrightarrow> (\<exists>f. recovers n = Inl f \<and> kind f = ServerError)"
    by (simp add: recovers_def unavailable_def)
  have b: "(2::nat) < 3" by simp
  have c: "recovers (Suc 2) = Inr ''done''" by (simp add: recovers_def)
  have d: "\<forall>n. 1 \<le> n \<and> n \<le> 3 \<longrightarrow> (\<exists>f. always_unavailable n = Inl f \<and> kind f = ServerError)"
    by (simp add: always_unavailable_def unavailable_def)
  have e: "\<forall>n. 1 \<le> n \<and> n < 2 \<longrightarrow>
      (\<exists>f. denied_after_outage n = Inl f \<and> kind f = ServerError)"
    by (simp add: denied_after_outage_def unavailable_def)
  have f: "(1::nat) \<le> 2" by simp
  have g: "(2::nat) \<le> 10" by simp
  have h: "denied_after_outage 2 = Inl denied" by (simp add: denied_after_outage_def)
  have i: "kind denied = AuthInvalid" by (simp add: denied_def)
  have j: "always_unavailable 3 = Inl (unavailable 3)" by (simp add: always_unavailable_def)
  from withRetry_default_policy [OF a b c d e f g h i] j
  show ?thesis by simp
qed

end
